theory Spec2Isabelle
  imports Complex_Main
begin

section \<open>Text, failures and the external libraries\<close>

text \<open>
  A Python \<open>str\<close> is a sequence of Unicode code points, so a text is a list of code
  points (\<open>len\<close> is \<open>length\<close>). Part-of-speech tags, the language tag and the polarity label
  are ASCII literals of the source and are kept as \<open>string\<close>. A Python float is
  modelled by the real number it denotes; the arithmetic on floats rounds its result, see
  \<open>float_add\<close> and \<open>float_div\<close> below.
\<close>

type_synonym cp = nat
type_synonym pystr = "cp list"

definition of_ascii :: "string \<Rightarrow> pystr" where
  "of_ascii s = map of_char s"

text \<open>A raised \<open>Exception\<close>, with its \<open>str(e)\<close>.\<close>

datatype failure = Failure string

text \<open>
  The Unicode tables of the Python runtime that \<open>str.lower\<close> and the regular expression
  class \<open>\w\<close> consult are not part of the repository. Their ASCII part is written out below;
  beyond ASCII they are parameters: \<open>uni_lower s i\<close> is the lower-case expansion of the
  non-ASCII code point at index \<open>i\<close> of \<open>s\<close> (it may depend on the context, as for the
  Greek capital sigma, and may be several code points), and \<open>uni_alnum c\<close> is \<open>str.isalnum\<close>
  of the non-ASCII code point \<open>c\<close>.
\<close>

record unicode =
  uni_lower :: "pystr \<Rightarrow> nat \<Rightarrow> pystr"
  uni_alnum :: "cp \<Rightarrow> bool"

text \<open>The result of \<open>SentimentIntensityAnalyzer().polarity_scores(text)\<close>.\<close>

record vader =
  v_neg :: real
  v_neu :: real
  v_pos :: real
  v_compound :: real

text \<open>
  The rounding of a real number to a double is part of the Python runtime. It is a parameter:
  any monotone function that leaves the doubles -2, -1, 1 and 2 unchanged, as rounding to
  the nearest double does, and as does the exact arithmetic that rounds nothing.
\<close>

typedef rounding =
  "{r :: real \<Rightarrow> real. mono r \<and> r (- 2) = - 2 \<and> r (- 1) = - 1 \<and> r 1 = 1 \<and> r 2 = 2}"
  by (intro exI [of _ "\<lambda>x. x"]) (simp add: mono_def)

setup_lifting type_definition_rounding

lift_definition exact_rounding :: rounding is "\<lambda>x. x"
  by (simp add: mono_def)

text \<open>
  The imported models (\<open>jieba\<close>, \<open>SnowNLP\<close>, \<open>TextBlob\<close>, NLTK's VADER) are parameters:
  each call either raises or returns a value that depends on the text only. With them comes
  \<open>float_round\<close>, the rounding of the floats they return.
\<close>

record models =
  float_round :: rounding
  jieba_cut :: "pystr \<Rightarrow> failure + pystr list"
  snow_sentiments :: "pystr \<Rightarrow> failure + real"
  snow_tags :: "pystr \<Rightarrow> failure + (pystr \<times> string) list"
  vader_polarity_scores :: "pystr \<Rightarrow> failure + vader"
  blob_polarity :: "pystr \<Rightarrow> failure + real"
  blob_tags :: "pystr \<Rightarrow> failure + (pystr \<times> string) list"

text \<open>The float operations \<open>x + y\<close> and \<open>x / y\<close>: the exact result, rounded.\<close>

definition float_add :: "models \<Rightarrow> real \<Rightarrow> real \<Rightarrow> real" where
  "float_add M x y = Rep_rounding (float_round M) (x + y)"

definition float_div :: "models \<Rightarrow> real \<Rightarrow> real \<Rightarrow> real" where
  "float_div M x y = Rep_rounding (float_round M) (x / y)"

section \<open>Language detection\<close>

text \<open>The character class of \<open>detect_language\<close>: the code points U+4E00 to U+9FA5.\<close>

definition is_cjk :: "cp \<Rightarrow> bool" where
  "is_cjk c = (0x4e00 \<le> c \<and> c \<le> 0x9fa5)"

text \<open>
  The block CJK Unified Ideographs of the Unicode standard, which the specification names:
  U+4E00 to U+9FFF. The source does not use it; it is here to compare the two ranges.
\<close>

definition cjk_unified_ideographs :: "cp \<Rightarrow> bool" where
  "cjk_unified_ideographs c = (0x4e00 \<le> c \<and> c \<le> 0x9fff)"

text \<open>
  \<open>re.search\<close> with a one-character class: scan from the left, the match is the first code
  point of the class; \<open>None\<close> when there is none.
\<close>

fun re_search_cjk :: "pystr \<Rightarrow> cp option" where
  "re_search_cjk [] = None"
| "re_search_cjk (c # cs) = (if is_cjk c then Some c else re_search_cjk cs)"

definition detect_language :: "pystr \<Rightarrow> string" where
  "detect_language txt = (if re_search_cjk txt \<noteq> None then ''zh'' else ''en'')"

section \<open>Tokenization\<close>

definition is_ascii_upper :: "cp \<Rightarrow> bool" where
  "is_ascii_upper c = (65 \<le> c \<and> c \<le> 90)"

definition is_ascii_lower :: "cp \<Rightarrow> bool" where
  "is_ascii_lower c = (97 \<le> c \<and> c \<le> 122)"

definition is_ascii_digit :: "cp \<Rightarrow> bool" where
  "is_ascii_digit c = (48 \<le> c \<and> c \<le> 57)"

text \<open>The character class \<open>[a-zA-Z]\<close>.\<close>

definition is_ascii_letter :: "cp \<Rightarrow> bool" where
  "is_ascii_letter c = (is_ascii_lower c \<or> is_ascii_upper c)"

text \<open>\<open>text.lower()\<close>: code point by code point, in order.\<close>

definition lower_at :: "unicode \<Rightarrow> pystr \<Rightarrow> nat \<Rightarrow> pystr" where
  "lower_at U s i =
     (let c = s ! i in
      if c < 128 then [if is_ascii_upper c then c + 32 else c]
      else uni_lower U s i)"

definition str_lower :: "unicode \<Rightarrow> pystr \<Rightarrow> pystr" where
  "str_lower U s = concat (map (lower_at U s) [0..<length s])"

text \<open>The class \<open>\w\<close> of a \<open>str\<close> pattern: alphanumeric or the underscore.\<close>

definition is_word :: "unicode \<Rightarrow> cp \<Rightarrow> bool" where
  "is_word U c =
     (if c < 128 then is_ascii_letter c \<or> is_ascii_digit c \<or> c = 95
      else uni_alnum U c)"

text \<open>
  \<open>\b\<close> at a position, given the code point before it and the one after it (\<open>None\<close> at
  the start and at the end of the string): exactly one of the two is a word character.
\<close>

definition opt_word :: "unicode \<Rightarrow> cp option \<Rightarrow> bool" where
  "opt_word U x = (case x of None \<Rightarrow> False | Some c \<Rightarrow> is_word U c)"

definition word_boundary :: "unicode \<Rightarrow> cp option \<Rightarrow> cp option \<Rightarrow> bool" where
  "word_boundary U prev nxt = (opt_word U prev \<noteq> opt_word U nxt)"

definition nth_opt :: "'a list \<Rightarrow> nat \<Rightarrow> 'a option" where
  "nth_opt xs i = (if i < length xs then Some (xs ! i) else None)"

text \<open>
  One attempt of \<open>\b[a-zA-Z]+\b\<close> at the start of \<open>s\<close>, \<open>prev\<close> being the code point
  before it. The \<open>+\<close> is greedy and backtracks: \<open>try_len\<close> tries the closing \<open>\b\<close> after
  \<open>k\<close> letters, for \<open>k\<close> from the longest run of letters down to one. The result is the
  length of the match.
\<close>

fun try_len :: "unicode \<Rightarrow> pystr \<Rightarrow> nat \<Rightarrow> nat option" where
  "try_len U s 0 = None"
| "try_len U s (Suc k) =
     (if word_boundary U (Some (s ! k)) (nth_opt s (Suc k)) then Some (Suc k)
      else try_len U s k)"

definition match_at :: "unicode \<Rightarrow> cp option \<Rightarrow> pystr \<Rightarrow> nat option" where
  "match_at U prev s =
     (if word_boundary U prev (nth_opt s 0)
      then try_len U s (length (takeWhile is_ascii_letter s))
      else None)"

lemma try_len_bounds: "try_len U s k = Some n \<Longrightarrow> 0 < n \<and> n \<le> k"
  by (induction k) (auto split: if_splits)

lemma match_at_bounds: "match_at U prev s = Some n \<Longrightarrow> 0 < n \<and> n \<le> length s"
proof -
  assume "match_at U prev s = Some n"
  then have "try_len U s (length (takeWhile is_ascii_letter s)) = Some n"
    by (simp add: match_at_def split: if_splits)
  then have "0 < n \<and> n \<le> length (takeWhile is_ascii_letter s)"
    by (rule try_len_bounds)
  moreover have "length (takeWhile is_ascii_letter s) \<le> length s"
    by (rule length_takeWhile_le)
  ultimately show ?thesis by linarith
qed

text \<open>
  \<open>re.findall\<close>: attempts at successive positions; after a match the scan resumes at its
  end, after a failed attempt one code point further. At the end of the string the pattern
  cannot match, since it needs a letter.
\<close>

function findall_words :: "unicode \<Rightarrow> cp option \<Rightarrow> pystr \<Rightarrow> pystr list" where
  "findall_words U prev [] = []"
| "findall_words U prev (c # cs) =
     (case match_at U prev (c # cs) of
        Some n \<Rightarrow> take n (c # cs) # findall_words U (Some ((c # cs) ! (n - 1))) (drop n (c # cs))
      | None \<Rightarrow> findall_words U (Some c) cs)"
  by pat_completeness auto
termination
  by (relation "measure (\<lambda>(U, prev, s). length s)") (auto dest: match_at_bounds)

text \<open>\<open>tokenize_text\<close>: \<open>jieba.cut\<close> may raise, the regular expression cannot.\<close>

definition tokenize_text :: "models \<Rightarrow> unicode \<Rightarrow> pystr \<Rightarrow> string \<Rightarrow> failure + pystr list" where
  "tokenize_text M U txt language =
     (if language = ''zh'' then jieba_cut M txt
      else Inr (findall_words U None (str_lower U txt)))"

text \<open>
  The tokens as the specification words them, to be compared with \<open>findall_words\<close>: the
  words of the text, a word being a maximal run of word characters (what lies between two
  consecutive word boundaries), that consist of ASCII letters only, in document order.
\<close>

function word_runs :: "(cp \<Rightarrow> bool) \<Rightarrow> pystr \<Rightarrow> pystr list" where
  "word_runs P [] = []"
| "word_runs P (c # cs) =
     (if P c then takeWhile P (c # cs) # word_runs P (dropWhile P cs)
      else word_runs P cs)"
  by pat_completeness auto
termination
  by (relation "measure (\<lambda>(P, s). length s)") (auto simp: le_imp_less_Suc length_dropWhile_le)

definition letter_words :: "unicode \<Rightarrow> pystr \<Rightarrow> pystr list" where
  "letter_words U s = filter (list_all is_ascii_letter) (word_runs (is_word U) s)"

section \<open>Sentiment analysis\<close>

record intensities =
  positive :: real
  negative :: real
  neutral :: real

record analysis =
  score :: real
  polarity :: string
  intensity :: intensities
  keywords_of :: "(pystr \<times> string) list"

definition default_analysis :: analysis where
  "default_analysis =
     \<lparr>score = 0.5, polarity = ''neutral'',
      intensity = \<lparr>positive = 0, negative = 0, neutral = 0\<rparr>,
      keywords_of = []\<rparr>"

definition startswith :: "string \<Rightarrow> string \<Rightarrow> bool" where
  "startswith s p = (take (length p) s = p)"

text \<open>
  The body of the \<open>try\<close> block up to the polarity test, for each language. The dictionary
  \<open>analysis\<close> is updated in place, so a call that raises leaves the updates made before it:
  \<open>Inl\<close> carries the exception together with the dictionary as it is at that moment.
\<close>

definition zh_analysis :: "models \<Rightarrow> pystr \<Rightarrow> analysis \<Rightarrow> (failure \<times> analysis) + analysis" where
  "zh_analysis M txt a0 =
     (case snow_sentiments M txt of
        Inl e \<Rightarrow> Inl (e, a0)
      | Inr s \<Rightarrow>
          (let a1 = a0\<lparr>score := s\<rparr> in
           case snow_tags M txt of
             Inl e \<Rightarrow> Inl (e, a1)
           | Inr tags \<Rightarrow>
               Inr (a1\<lparr>keywords_of :=
                      filter (\<lambda>(word, tag). tag \<in> set [''a'', ''ad'', ''ag'', ''an'']) tags\<rparr>)))"

definition en_analysis :: "models \<Rightarrow> pystr \<Rightarrow> analysis \<Rightarrow> (failure \<times> analysis) + analysis" where
  "en_analysis M txt a0 =
     (case vader_polarity_scores M txt of
        Inl e \<Rightarrow> Inl (e, a0)
      | Inr vader \<Rightarrow>
          (case blob_polarity M txt of
             Inl e \<Rightarrow> Inl (e, a0)
           | Inr p \<Rightarrow>
               (let a1 = a0\<lparr>score := float_div M (float_add M p (v_compound vader)) 2\<rparr>;
                    a2 = a1\<lparr>intensity :=
                              \<lparr>positive = v_pos vader, negative = v_neg vader,
                               neutral = v_neu vader\<rparr>\<rparr>
                in case blob_tags M txt of
                     Inl e \<Rightarrow> Inl (e, a2)
                   | Inr tags \<Rightarrow>
                       Inr (a2\<lparr>keywords_of :=
                              filter (\<lambda>(word, tag). startswith tag ''JJ'') tags\<rparr>))))"

text \<open>The polarity test that ends the \<open>try\<close> block.\<close>

definition set_polarity :: "analysis \<Rightarrow> analysis" where
  "set_polarity a =
     (if score a > 0.6 then a\<lparr>polarity := ''positive''\<rparr>
      else if score a < 0.4 then a\<lparr>polarity := ''negative''\<rparr>
      else a)"

text \<open>What the program prints, as values.\<close>

datatype message = SentimentError failure | AnalysisFailed failure

text \<open>
  \<open>analyze_sentiment\<close> returns the dictionary and what it printed. The handler prints the
  exception and falls through to \<open>return analysis\<close>.
\<close>

definition analyze_sentiment :: "models \<Rightarrow> pystr \<Rightarrow> string \<Rightarrow> analysis \<times> message list" where
  "analyze_sentiment M txt lang =
     (case (if lang = ''zh'' then zh_analysis M txt default_analysis
            else en_analysis M txt default_analysis) of
        Inl (e, a) \<Rightarrow> (a, [SentimentError e])
      | Inr a \<Rightarrow> (set_polarity a, []))"

section \<open>The analysis of a file\<close>

text \<open>
  \<open>Counter(words)\<close>: a dictionary keeps its keys in insertion order, so it is an association
  list; each element adds one to its count, a new key is appended.
\<close>

fun counter_add :: "'a \<Rightarrow> ('a \<times> nat) list \<Rightarrow> ('a \<times> nat) list" where
  "counter_add x [] = [(x, 1)]"
| "counter_add x ((k, n) # kvs) =
     (if k = x then (k, n + 1) # kvs else (k, n) # counter_add x kvs)"

definition Counter :: "'a list \<Rightarrow> ('a \<times> nat) list" where
  "Counter xs = foldl (\<lambda>m x. counter_add x m) [] xs"

text \<open>
  \<open>str.splitlines\<close>: the line boundaries are LF, CR, CR LF, VT, FF, FS, GS, RS, NEL, LS
  and PS; a boundary at the very end opens no further line.
\<close>

definition is_linebreak :: "cp \<Rightarrow> bool" where
  "is_linebreak c = (c \<in> set [10, 11, 12, 13, 28, 29, 30, 133, 8232, 8233])"

fun splitlines_from :: "pystr \<Rightarrow> pystr \<Rightarrow> pystr list" where
  "splitlines_from cur [] = (if cur = [] then [] else [cur])"
| "splitlines_from cur [c] =
     (if is_linebreak c then [cur] else splitlines_from (cur @ [c]) [])"
| "splitlines_from cur (c # d # cs) =
     (if c = 13 \<and> d = 10 then cur # splitlines_from [] cs
      else if is_linebreak c then cur # splitlines_from [] (d # cs)
      else splitlines_from (cur @ [c]) (d # cs))"

definition splitlines :: "pystr \<Rightarrow> pystr list" where
  "splitlines s = splitlines_from [] s"

record stats =
  file_name :: pystr
  file_size :: nat
  char_count :: nat
  line_count :: nat
  language :: string
  words :: "pystr list"
  sentiment :: analysis
  word_count :: nat
  word_freq :: "(pystr \<times> nat) list"

text \<open>
  The world outside: \<open>fs_read\<close> is \<open>open\<close> with \<open>read\<close> (it raises when the file cannot be
  opened or is not UTF-8), \<open>fs_getsize\<close> is \<open>os.path.getsize\<close>, \<open>os_basename\<close> is
  \<open>os.path.basename\<close> of the platform, \<open>console\<close> is what has been printed.
\<close>

record world =
  fs_read :: "pystr \<Rightarrow> failure + pystr"
  fs_getsize :: "pystr \<Rightarrow> failure + nat"
  os_basename :: "pystr \<Rightarrow> pystr"
  console :: "message list"

definition print :: "message list \<Rightarrow> world \<Rightarrow> world" where
  "print ms w = w\<lparr>console := console w @ ms\<rparr>"

text \<open>
  \<open>analyze_file\<close>: every exception raised in the body reaches the handler, which prints it
  and returns \<open>None\<close>.
\<close>

definition analyze_file :: "models \<Rightarrow> unicode \<Rightarrow> pystr \<Rightarrow> world \<Rightarrow> stats option \<times> world" where
  "analyze_file M U file_path w =
     (case fs_read w file_path of
        Inl e \<Rightarrow> (None, print [AnalysisFailed e] w)
      | Inr content \<Rightarrow>
          (case fs_getsize w file_path of
             Inl e \<Rightarrow> (None, print [AnalysisFailed e] w)
           | Inr sz \<Rightarrow>
               (let lang = detect_language content in
                case tokenize_text M U content lang of
                  Inl e \<Rightarrow> (None, print [AnalysisFailed e] w)
                | Inr ws \<Rightarrow>
                    (let (a, ms) = analyze_sentiment M content lang in
                     (Some \<lparr>file_name = os_basename w file_path,
                            file_size = sz,
                            char_count = length content,
                            line_count = length (splitlines content),
                            language = lang,
                            words = ws,
                            sentiment = a,
                            word_count = length ws,
                            word_freq = Counter ws\<rparr>,
                      print ms w)))))"

text \<open>
  The main program after the path has been read: the chart and report stages are external;
  what matters here is whether they are invoked, and on which record.
\<close>

datatype stage = GenerateCharts stats | ExportReport stats string

definition main_stages :: "models \<Rightarrow> unicode \<Rightarrow> pystr \<Rightarrow> string \<Rightarrow> world \<Rightarrow> stage list" where
  "main_stages M U file_path choice w =
     (case fst (analyze_file M U file_path w) of
        None \<Rightarrow> []
      | Some result \<Rightarrow>
          GenerateCharts result #
          (if choice \<in> set [''csv'', ''pdf''] then [ExportReport result choice] else []))"

section \<open>A concrete run\<close>

text \<open>
  Concrete tables, models and files, on which the statements below are evaluated. The tables
  leave every non-ASCII code point unchanged and count none as alphanumeric. The models
  return fixed values, negative ones for the text of the complaint, and their arithmetic is
  exact.
  \<open>missing_corpus_models\<close> has the part-of-speech tagger of \<open>TextBlob\<close> raise, as it does
  when its corpora are not installed.
\<close>

definition example_unicode :: unicode where
  "example_unicode = \<lparr>uni_lower = (\<lambda>s i. [s ! i]), uni_alnum = (\<lambda>c. False)\<rparr>"

definition example_text :: pystr where
  "example_text = of_ascii ''I love this, it is wonderful and I love it''"

definition complaint_text :: pystr where
  "complaint_text = of_ascii ''I hate this, it is awful''"

definition example_models :: models where
  "example_models =
     \<lparr>float_round = exact_rounding,
      jieba_cut = (\<lambda>t. Inr [t]),
      snow_sentiments = (\<lambda>t. Inr 0.9),
      snow_tags = (\<lambda>t. Inr [(t, ''a'')]),
      vader_polarity_scores =
        (\<lambda>t. if t = complaint_text
             then Inr \<lparr>v_neg = 0.7, v_neu = 0.3, v_pos = 0, v_compound = - 0.8\<rparr>
             else Inr \<lparr>v_neg = 0, v_neu = 0.4, v_pos = 0.6, v_compound = 0.8\<rparr>),
      blob_polarity = (\<lambda>t. if t = complaint_text then Inr (- 0.9) else Inr 0.6),
      blob_tags =
        (\<lambda>t. if t = complaint_text then Inr [(of_ascii ''awful'', ''JJ'')]
             else Inr [(of_ascii ''love'', ''VBP''), (of_ascii ''wonderful'', ''JJ'')])\<rparr>"

definition missing_corpus_models :: models where
  "missing_corpus_models =
     example_models\<lparr>blob_tags := (\<lambda>t. Inl (Failure ''MissingCorpusError''))\<rparr>"

definition example_words :: "pystr list" where
  "example_words =
     map of_ascii [''i'', ''love'', ''this'', ''it'', ''is'', ''wonderful'', ''and'', ''i'',
       ''love'', ''it'']"

definition complaint_words :: "pystr list" where
  "complaint_words = map of_ascii [''i'', ''hate'', ''this'', ''it'', ''is'', ''awful'']"

definition example_path :: pystr where
  "example_path = of_ascii ''review.txt''"

definition complaint_path :: pystr where
  "complaint_path = of_ascii ''complaint.txt''"

definition example_world :: world where
  "example_world =
     \<lparr>fs_read = (\<lambda>p. if p = example_path then Inr example_text
                      else if p = complaint_path then Inr complaint_text
                      else Inl (Failure ''FileNotFoundError'')),
      fs_getsize = (\<lambda>p. if p = example_path then Inr 42
                         else if p = complaint_path then Inr 24
                         else Inl (Failure ''FileNotFoundError'')),
      os_basename = (\<lambda>p. p),
      console = []\<rparr>"

definition example_result :: stats where
  "example_result =
     \<lparr>file_name = example_path, file_size = 42, char_count = 42, line_count = 1,
      language = ''en'', words = example_words,
      sentiment =
        \<lparr>score = 0.7, polarity = ''positive'',
         intensity = \<lparr>positive = 0.6, negative = 0, neutral = 0.4\<rparr>,
         keywords_of = [(of_ascii ''wonderful'', ''JJ'')]\<rparr>,
      word_count = 10,
      word_freq =
        [(of_ascii ''i'', 2), (of_ascii ''love'', 2), (of_ascii ''this'', 1),
         (of_ascii ''it'', 2), (of_ascii ''is'', 1), (of_ascii ''wonderful'', 1),
         (of_ascii ''and'', 1)]\<rparr>"

definition complaint_result :: stats where
  "complaint_result =
     \<lparr>file_name = complaint_path, file_size = 24, char_count = 24, line_count = 1,
      language = ''en'', words = complaint_words,
      sentiment =
        \<lparr>score = - 0.85, polarity = ''negative'',
         intensity = \<lparr>positive = 0, negative = 0.7, neutral = 0.3\<rparr>,
         keywords_of = [(of_ascii ''awful'', ''JJ'')]\<rparr>,
      word_count = 6,
      word_freq =
        [(of_ascii ''i'', 1), (of_ascii ''hate'', 1), (of_ascii ''this'', 1),
         (of_ascii ''it'', 1), (of_ascii ''is'', 1), (of_ascii ''awful'', 1)]\<rparr>"

lemmas tokenizer_eval =
  tokenize_text_def of_ascii_def str_lower_def lower_at_def example_unicode_def match_at_def
  word_boundary_def opt_word_def is_word_def is_ascii_letter_def is_ascii_upper_def
  is_ascii_lower_def is_ascii_digit_def nth_opt_def upt_rec

lemma example_float_add: "float_add example_models x y = x + y"
  by (simp add: float_add_def example_models_def exact_rounding.rep_eq)

lemma example_float_div: "float_div example_models x y = x / y"
  by (simp add: float_div_def example_models_def exact_rounding.rep_eq)

lemma texts_differ: "example_text \<noteq> complaint_text"
  by (simp add: example_text_def complaint_text_def of_ascii_def)

lemma paths_differ: "complaint_path \<noteq> example_path"
  by (simp add: example_path_def complaint_path_def of_ascii_def)

lemma example_tokens: "tokenize_text M example_unicode example_text ''en'' = Inr example_words"
  by (simp add: tokenizer_eval example_text_def example_words_def)

lemma complaint_tokens:
  "tokenize_text M example_unicode complaint_text ''en'' = Inr complaint_words"
  by (simp add: tokenizer_eval complaint_text_def complaint_words_def)

lemma example_language: "detect_language example_text = ''en''"
  by (simp add: detect_language_def example_text_def of_ascii_def is_cjk_def)

lemma complaint_language: "detect_language complaint_text = ''en''"
  by (simp add: detect_language_def complaint_text_def of_ascii_def is_cjk_def)

lemma example_lines: "length (splitlines example_text) = 1"
  by (simp add: splitlines_def example_text_def of_ascii_def is_linebreak_def)

lemma complaint_lines: "length (splitlines complaint_text) = 1"
  by (simp add: splitlines_def complaint_text_def of_ascii_def is_linebreak_def)

lemma example_length: "length example_text = 42"
  by (simp add: example_text_def of_ascii_def)

lemma complaint_length: "length complaint_text = 24"
  by (simp add: complaint_text_def of_ascii_def)

lemma example_words_length: "length example_words = 10"
  by (simp add: example_words_def)

lemma complaint_words_length: "length complaint_words = 6"
  by (simp add: complaint_words_def)

lemma example_counter:
  "Counter example_words =
     [(of_ascii ''i'', 2), (of_ascii ''love'', 2), (of_ascii ''this'', 1),
      (of_ascii ''it'', 2), (of_ascii ''is'', 1), (of_ascii ''wonderful'', 1),
      (of_ascii ''and'', 1)]"
  by (simp add: Counter_def example_words_def of_ascii_def)

lemma complaint_counter:
  "Counter complaint_words =
     [(of_ascii ''i'', 1), (of_ascii ''hate'', 1), (of_ascii ''this'', 1),
      (of_ascii ''it'', 1), (of_ascii ''is'', 1), (of_ascii ''awful'', 1)]"
  by (simp add: Counter_def complaint_words_def of_ascii_def)

lemma example_sentiment:
  "analyze_sentiment example_models example_text ''en'' =
     (\<lparr>score = 0.7, polarity = ''positive'',
       intensity = \<lparr>positive = 0.6, negative = 0, neutral = 0.4\<rparr>,
       keywords_of = [(of_ascii ''wonderful'', ''JJ'')]\<rparr>, [])"
  by (simp add: analyze_sentiment_def en_analysis_def float_add_def float_div_def
      exact_rounding.rep_eq example_models_def default_analysis_def set_polarity_def startswith_def texts_differ)

lemma complaint_sentiment:
  "analyze_sentiment example_models complaint_text ''en'' =
     (\<lparr>score = - 0.85, polarity = ''negative'',
       intensity = \<lparr>positive = 0, negative = 0.7, neutral = 0.3\<rparr>,
       keywords_of = [(of_ascii ''awful'', ''JJ'')]\<rparr>, [])"
  by (simp add: analyze_sentiment_def en_analysis_def float_add_def float_div_def
      exact_rounding.rep_eq example_models_def default_analysis_def set_polarity_def startswith_def)

lemma example_run:
  "analyze_file example_models example_unicode example_path example_world =
     (Some example_result, example_world)"
  by (simp add: analyze_file_def example_world_def example_language example_tokens
      example_lines example_length example_counter example_sentiment example_result_def
      example_words_length print_def)

lemma complaint_run:
  "analyze_file example_models example_unicode complaint_path example_world =
     (Some complaint_result, example_world)"
  by (simp add: analyze_file_def example_world_def complaint_language complaint_tokens
      complaint_lines complaint_length complaint_counter complaint_sentiment
      complaint_result_def complaint_words_length print_def paths_differ)

section \<open>Language detection: properties\<close>

lemma re_search_cjk_None: "re_search_cjk s = None \<longleftrightarrow> (\<forall>c\<in>set s. \<not> is_cjk c)"
  by (induction s) auto

lemma re_search_cjk_Some: "re_search_cjk s = Some c \<Longrightarrow> c \<in> set s \<and> is_cjk c"
  by (induction s) (auto split: if_splits)

text \<open>
  Claim C5, as amended. \<open>detect_language\<close> answers \<open>zh\<close> exactly when some code point of
  the text lies in the range of the character class of the source, U+4E00 to U+9FA5, and
  \<open>en\<close> otherwise; the empty text is \<open>en\<close>. The function is total: \<open>re.search\<close> on a
  string does not raise.
\<close>

theorem detect_language_cjk:
  "(detect_language s = ''zh'' \<longleftrightarrow> (\<exists>c\<in>set s. 0x4e00 \<le> c \<and> c \<le> 0x9fa5)) \<and>
   (detect_language s = ''en'' \<longleftrightarrow> \<not> (\<exists>c\<in>set s. 0x4e00 \<le> c \<and> c \<le> 0x9fa5)) \<and>
   detect_language [] = ''en''"
  using re_search_cjk_None [of s] by (auto simp: detect_language_def is_cjk_def)

theorem detect_language_cjk_witness:
  "detect_language [0x6211, 0x7231, 0x8fd9, 0x4e2a, 0x4ea7, 0x54c1] = ''zh'' \<and>
   detect_language [0x49, 0x20, 0x6c, 0x6f, 0x76, 0x65] = ''en''"
  using detect_language_cjk [of "[0x6211, 0x7231, 0x8fd9, 0x4e2a, 0x4ea7, 0x54c1]"]
    detect_language_cjk [of "[0x49, 0x20, 0x6c, 0x6f, 0x76, 0x65]"]
  by simp

text \<open>
  Claim C5 as stated fails: the block CJK Unified Ideographs runs to U+9FFF, the character
  class of the source stops at U+9FA5, and a text made of the ideograph U+9FA6 is \<open>en\<close>.
\<close>

lemma is_cjk_in_block: "is_cjk c \<Longrightarrow> cjk_unified_ideographs c"
  by (simp add: is_cjk_def cjk_unified_ideographs_def)

theorem detect_language_block_counterexample:
  "cjk_unified_ideographs 0x9fa6 \<and> detect_language [0x9fa6] = ''en'' \<and>
   detect_language [0x9fa6] \<noteq> ''zh''"
  by (simp add: cjk_unified_ideographs_def detect_language_def is_cjk_def)

section \<open>Tokenization: the regular expression against the words of the text\<close>

lemma letter_is_word: "is_ascii_letter c \<Longrightarrow> is_word U c"
  by (auto simp: is_word_def is_ascii_letter_def is_ascii_lower_def is_ascii_upper_def)

text \<open>Inside a run of letters no closing \<open>\b\<close> is found, so backtracking never succeeds.\<close>

lemma try_len_inside:
  "\<forall>x\<in>set L. is_ascii_letter x \<Longrightarrow> k < length L \<Longrightarrow> try_len U (L @ r) k = None"
proof (induction k)
  case 0
  show ?case by simp
next
  case (Suc k)
  from Suc.prems have a: "is_word U (L ! k)" and b: "is_word U (L ! Suc k)"
    by (auto intro!: letter_is_word)
  from Suc show ?case using a b
    by (simp add: word_boundary_def opt_word_def nth_opt_def nth_append)
qed

lemma try_len_full:
  assumes "\<forall>x\<in>set L. is_ascii_letter x" and "L \<noteq> []"
  shows "try_len U (L @ r) (length L) =
           (if opt_word U (nth_opt r 0) then None else Some (length L))"
proof -
  obtain k where k: "length L = Suc k" using assms(2) by (cases L) auto
  have w: "is_word U (L ! k)" using assms(1) k by (auto intro!: letter_is_word)
  have n: "try_len U (L @ r) k = None"
    using assms(1) k by (intro try_len_inside) auto
  have o: "nth_opt (L @ r) (Suc k) = nth_opt r 0"
    using k by (auto simp: nth_opt_def nth_append)
  show ?thesis using w n o k
    by (simp add: word_boundary_def opt_word_def nth_append)
qed

text \<open>
  An attempt that starts where no word character precedes succeeds exactly when the word
  that starts there is made of letters, and then matches the whole word.
\<close>

lemma match_at_word_start:
  assumes "\<not> opt_word U prev"
  shows "match_at U prev s =
           (let W = takeWhile (is_word U) s in
            if W \<noteq> [] \<and> list_all is_ascii_letter W then Some (length W) else None)"
proof -
  define L where "L = takeWhile is_ascii_letter s"
  define r where "r = dropWhile is_ascii_letter s"
  have s: "s = L @ r" by (simp add: L_def r_def)
  have L: "\<forall>x\<in>set L. is_ascii_letter x" by (auto simp: L_def dest: set_takeWhileD)
  have Lw: "\<And>x. x \<in> set L \<Longrightarrow> is_word U x" using L by (auto intro: letter_is_word)
  have r: "r = [] \<or> \<not> is_ascii_letter (hd r)"
    unfolding r_def by (metis hd_dropWhile)
  have tl: "takeWhile is_ascii_letter (L @ r) = L" using s L_def by simp
  have W: "takeWhile (is_word U) (L @ r) = L @ takeWhile (is_word U) r"
    using Lw by simp
  show ?thesis
  proof (cases "L = []")
    case True
    then have "r = [] \<or> \<not> is_ascii_letter (hd r)" using r by simp
    then show ?thesis using True s tl
      by (cases r) (auto simp: match_at_def Let_def)
  next
    case False
    have b: "word_boundary U prev (nth_opt (L @ r) 0)"
      using False assms Lw by (cases L) (auto simp: word_boundary_def opt_word_def nth_opt_def)
    have m: "match_at U prev (L @ r) =
               (if opt_word U (nth_opt r 0) then None else Some (length L))"
      using b tl try_len_full [OF L False] by (simp add: match_at_def)
    show ?thesis
    proof (cases r)
      case Nil
      have WL: "takeWhile (is_word U) L = L" using Lw by simp
      show ?thesis using Nil m s False L
        by (simp add: WL Let_def opt_word_def nth_opt_def list_all_iff)
    next
      case (Cons x r')
      then have nl: "\<not> is_ascii_letter x" using r by simp
      show ?thesis using m s W False L Cons nl
        by (auto simp: Let_def opt_word_def nth_opt_def list_all_iff)
    qed
  qed
qed

lemma match_at_inside_word:
  assumes "opt_word U prev"
  shows "match_at U prev (c # cs) = None"
proof (cases "is_word U c")
  case True
  then show ?thesis using assms
    by (simp add: match_at_def word_boundary_def opt_word_def nth_opt_def)
next
  case False
  then have "\<not> is_ascii_letter c" using letter_is_word by blast
  then show ?thesis by (simp add: match_at_def)
qed

lemma letter_words_Cons:
  "letter_words U (c # cs) =
     (if is_word U c
      then (if list_all is_ascii_letter (takeWhile (is_word U) (c # cs))
            then [takeWhile (is_word U) (c # cs)] else []) @
           letter_words U (dropWhile (is_word U) cs)
      else letter_words U cs)"
  by (simp add: letter_words_def)

text \<open>
  The scan, started anywhere: after a word character it first leaves the word it is in.
\<close>

lemma findall_words_eq:
  "findall_words U prev s =
     (if opt_word U prev then letter_words U (dropWhile (is_word U) s) else letter_words U s)"
proof (induction U prev s rule: findall_words.induct)
  case (1 U prev)
  show ?case by (simp add: letter_words_def)
next
  case (2 U prev c cs)
  show ?case
  proof (cases "opt_word U prev")
    case True
    have m: "match_at U prev (c # cs) = None" using True by (rule match_at_inside_word)
    show ?thesis using True m "2.IH"(1) [OF m]
      by (simp add: opt_word_def letter_words_Cons)
  next
    case False
    note np = this
    let ?W = "takeWhile (is_word U) (c # cs)"
    show ?thesis
    proof (cases "?W \<noteq> [] \<and> list_all is_ascii_letter ?W")
      case True
      then have m: "match_at U prev (c # cs) = Some (length ?W)"
        using match_at_word_start [OF np, of "c # cs"] by (simp add: Let_def)
      have wc: "is_word U c" using True by (auto split: if_splits)
      have tk: "take (length ?W) (c # cs) = ?W" by (rule takeWhile_eq_take [symmetric])
      have dr: "drop (length ?W) (c # cs) = dropWhile (is_word U) cs"
        using dropWhile_eq_drop [of "is_word U" "c # cs"] wc by simp
      have "(c # cs) ! (length ?W - 1) = ?W ! (length ?W - 1)"
        using True by (intro takeWhile_nth [symmetric]) simp
      moreover have "?W ! (length ?W - 1) \<in> set ?W" using True by (intro nth_mem) simp
      ultimately have lw: "is_word U ((c # cs) ! (length ?W - 1))"
        by (metis set_takeWhileD)
      have idem: "dropWhile (is_word U) (dropWhile (is_word U) cs) = dropWhile (is_word U) cs"
        by simp
      show ?thesis using "2.IH"(2) [OF m] np m tk dr lw idem True wc
        by (simp add: opt_word_def letter_words_Cons del: takeWhile.simps dropWhile.simps)
    next
      case False
      then have m: "match_at U prev (c # cs) = None"
        using match_at_word_start [OF np, of "c # cs"] by (simp add: Let_def)
      show ?thesis using "2.IH"(1) [OF m] np m False
        by (auto simp: opt_word_def letter_words_Cons)
    qed
  qed
qed

text \<open>
  Claim C6. On the English path \<open>tokenize_text\<close> returns, in document order, the words of
  the lower-cased text that consist of ASCII letters only: a token is a run of letters with a
  word boundary on each side, so a word holding a digit, an underscore or a non-ASCII
  alphanumeric gives no token, and neither does punctuation. The empty text gives no token.
  The text is lower-cased before the extraction, as in the source.
\<close>

theorem tokenize_text_en:
  assumes "lang \<noteq> ''zh''"
  shows "tokenize_text M U s lang = Inr (letter_words U (str_lower U s)) \<and>
         tokenize_text M U [] lang = Inr []"
proof -
  have scan: "findall_words U None t = letter_words U t" for t
    using findall_words_eq [of U None t] by (simp add: opt_word_def)
  have "tokenize_text M U s lang = Inr (findall_words U None (str_lower U s))"
    using assms by (simp add: tokenize_text_def)
  then have tokens: "tokenize_text M U s lang = Inr (letter_words U (str_lower U s))"
    by (simp only: scan)
  have "str_lower U [] = []" by (simp add: str_lower_def)
  then have "tokenize_text M U [] lang = Inr (findall_words U None [])"
    using assms by (simp add: tokenize_text_def)
  then have none: "tokenize_text M U [] lang = Inr []" by simp
  show ?thesis using tokens none by (rule conjI)
qed

theorem tokenize_text_en_witness:
  "''en'' \<noteq> ''zh'' \<and>
   tokenize_text example_models example_unicode (of_ascii ''abc123 x_y Don't 42 e'') ''en'' =
     Inr (map of_ascii [''don'', ''t'', ''e'']) \<and>
   letter_words example_unicode (str_lower example_unicode (of_ascii ''abc123 x_y Don't 42 e'')) =
     map of_ascii [''don'', ''t'', ''e'']"
proof -
  have l: "''en'' \<noteq> ''zh''" by simp
  have t: "tokenize_text example_models example_unicode (of_ascii ''abc123 x_y Don't 42 e'')
             ''en'' = Inr (map of_ascii [''don'', ''t'', ''e''])"
    by (simp add: tokenizer_eval)
  show ?thesis
    using l t tokenize_text_en [OF l, of example_models example_unicode
        "of_ascii ''abc123 x_y Don't 42 e''"]
    by simp
qed

lemma word_runs_elem: "r \<in> set (word_runs P s) \<Longrightarrow> r \<noteq> [] \<and> set r \<subseteq> set s"
proof (induction P s rule: word_runs.induct)
  case (1 P)
  then show ?case by simp
next
  case (2 P c cs)
  show ?case
  proof (cases "P c")
    case True
    with 2 show ?thesis by (auto dest: set_takeWhileD set_dropWhileD)
  next
    case False
    with 2 show ?thesis by auto
  qed
qed

lemma lower_at_no_upper:
  assumes "\<forall>s i. i < length s \<longrightarrow> 128 \<le> s ! i \<longrightarrow>
             (\<forall>c\<in>set (uni_lower U s i). \<not> is_ascii_upper c)"
  shows "i < length s \<Longrightarrow> c \<in> set (lower_at U s i) \<Longrightarrow> \<not> is_ascii_upper c"
  using assms by (auto simp: lower_at_def Let_def is_ascii_upper_def split: if_splits)

lemma str_lower_no_upper:
  assumes "\<forall>s i. i < length s \<longrightarrow> 128 \<le> s ! i \<longrightarrow>
             (\<forall>c\<in>set (uni_lower U s i). \<not> is_ascii_upper c)"
  shows "c \<in> set (str_lower U s) \<Longrightarrow> \<not> is_ascii_upper c"
  using lower_at_no_upper [OF assms] by (auto simp: str_lower_def)

text \<open>
  Claim C10. Every token of the English path is a non-empty string of the letters a to z.
  The lower-casing of the non-ASCII code points is a table of the Python runtime; what is
  used of it is that it yields no upper-case ASCII letter, which holds for Unicode's
  lower-case mapping.
\<close>

theorem en_tokens_lowercase:
  assumes "\<forall>s i. i < length s \<longrightarrow> 128 \<le> s ! i \<longrightarrow>
             (\<forall>c\<in>set (uni_lower U s i). \<not> (65 \<le> c \<and> c \<le> 90))"
    and "lang \<noteq> ''zh''"
    and "tokenize_text M U s lang = Inr toks"
    and "tok \<in> set toks"
  shows "tok \<noteq> [] \<and> (\<forall>c\<in>set tok. 97 \<le> c \<and> c \<le> 122)"
proof -
  have toks: "toks = letter_words U (str_lower U s)"
    using assms(2,3) by (simp add: tokenize_text_def findall_words_eq opt_word_def)
  then have run: "tok \<in> set (word_runs (is_word U) (str_lower U s))"
    and letters: "list_all is_ascii_letter tok"
    using assms(4) by (auto simp: letter_words_def)
  from run have ne: "tok \<noteq> []" and sub: "set tok \<subseteq> set (str_lower U s)"
    using word_runs_elem by blast+
  have up: "\<forall>s i. i < length s \<longrightarrow> 128 \<le> s ! i \<longrightarrow>
              (\<forall>c\<in>set (uni_lower U s i). \<not> is_ascii_upper c)"
    using assms(1) by (simp add: is_ascii_upper_def)
  have "\<forall>c\<in>set tok. is_ascii_lower c"
  proof
    fix c assume c: "c \<in> set tok"
    then have "\<not> is_ascii_upper c" using sub str_lower_no_upper [OF up] by blast
    moreover have "is_ascii_letter c" using c letters by (simp add: list_all_iff)
    ultimately show "is_ascii_lower c" by (simp add: is_ascii_letter_def)
  qed
  then show ?thesis using ne by (simp add: is_ascii_lower_def)
qed

theorem en_tokens_lowercase_witness:
  "tokenize_text example_models example_unicode
       [0x4b, 0x45, 0x4c, 0x56, 0x49, 0x4e, 0x20, 0x212a, 0x31] ''en'' =
     Inr [[0x6b, 0x65, 0x6c, 0x76, 0x69, 0x6e]] \<and>
   [0x6b, 0x65, 0x6c, 0x76, 0x69, 0x6e] \<noteq> ([] :: pystr) \<and>
   list_all (\<lambda>c. 97 \<le> c \<and> c \<le> 122) [0x6b, 0x65, 0x6c, 0x76, 0x69, 0x6e :: nat]"
proof -
  have u: "\<forall>s i. i < length s \<longrightarrow> 128 \<le> s ! i \<longrightarrow>
             (\<forall>c\<in>set (uni_lower example_unicode s i). \<not> (65 \<le> c \<and> c \<le> 90))"
    by (simp add: example_unicode_def)
  have t: "tokenize_text example_models example_unicode
             [0x4b, 0x45, 0x4c, 0x56, 0x49, 0x4e, 0x20, 0x212a, 0x31] ''en'' =
           Inr [[0x6b, 0x65, 0x6c, 0x76, 0x69, 0x6e]]"
    by (simp add: tokenizer_eval)
  have l: "''en'' \<noteq> ''zh''" by simp
  show ?thesis
    using t en_tokens_lowercase [OF u l t, of "[0x6b, 0x65, 0x6c, 0x76, 0x69, 0x6e]"]
    by simp
qed

section \<open>Sentiment analysis: properties\<close>

lemma set_polarity_score: "score (set_polarity a) = score a"
  by (simp add: set_polarity_def)

text \<open>The polarity test by itself follows the two thresholds.\<close>

lemma set_polarity_thresholds:
  "(score a > 0.6 \<longrightarrow> polarity (set_polarity a) = ''positive'') \<and>
   (score a < 0.4 \<longrightarrow> polarity (set_polarity a) = ''negative'') \<and>
   (0.4 \<le> score a \<and> score a \<le> 0.6 \<longrightarrow> polarity (set_polarity a) = polarity a)"
  by (simp add: set_polarity_def)

lemma zh_analysis_polarity:
  "zh_analysis M t a0 = Inr a \<Longrightarrow> polarity a = polarity a0"
  "zh_analysis M t a0 = Inl (e, a) \<Longrightarrow> polarity a = polarity a0"
  by (auto simp: zh_analysis_def Let_def split: sum.splits)

lemma en_analysis_polarity:
  "en_analysis M t a0 = Inr a \<Longrightarrow> polarity a = polarity a0"
  "en_analysis M t a0 = Inl (e, a) \<Longrightarrow> polarity a = polarity a0"
  by (auto simp: en_analysis_def Let_def split: sum.splits)

text \<open>When nothing was printed, that is when no call raised, the label follows the score.\<close>

lemma analyze_sentiment_completed:
  assumes "analyze_sentiment M t lang = (a, [])"
  shows "(score a > 0.6 \<longrightarrow> polarity a = ''positive'') \<and>
         (score a < 0.4 \<longrightarrow> polarity a = ''negative'') \<and>
         (0.4 \<le> score a \<and> score a \<le> 0.6 \<longrightarrow> polarity a = ''neutral'')"
proof -
  from assms obtain b where
    b: "(if lang = ''zh'' then zh_analysis M t default_analysis
         else en_analysis M t default_analysis) = Inr b" and a: "a = set_polarity b"
    by (auto simp: analyze_sentiment_def split: sum.splits)
  from b have "polarity b = ''neutral''"
    using zh_analysis_polarity(1) [of M t default_analysis b]
      en_analysis_polarity(1) [of M t default_analysis b]
    by (auto simp: default_analysis_def split: if_splits)
  then show ?thesis unfolding a by (simp add: set_polarity_def)
qed

text \<open>When the first model call raises, the dictionary is still the default one.\<close>

lemma analyze_sentiment_first_call_raises:
  "lang = ''zh'' \<Longrightarrow> snow_sentiments M t = Inl e \<Longrightarrow>
     analyze_sentiment M t lang = (default_analysis, [SentimentError e])"
  "lang \<noteq> ''zh'' \<Longrightarrow> vader_polarity_scores M t = Inl e \<Longrightarrow>
     analyze_sentiment M t lang = (default_analysis, [SentimentError e])"
  "lang \<noteq> ''zh'' \<Longrightarrow> vader_polarity_scores M t = Inr v \<Longrightarrow> blob_polarity M t = Inl e \<Longrightarrow>
     analyze_sentiment M t lang = (default_analysis, [SentimentError e])"
  by (simp_all add: analyze_sentiment_def zh_analysis_def en_analysis_def)

text \<open>
  Claim C1. The polarity is meant to be a function of the score: above 0.6 positive, below
  0.4 negative, neutral in between. The source applies the test at the end of the \<open>try\<close>
  block, after the keyword extraction. When the tagger raises, the score has already been
  stored and the test is skipped: the run below returns the score 0.7 with the label
  \<open>neutral\<close>.
\<close>

theorem polarity_not_from_score_after_failure:
  "analyze_sentiment missing_corpus_models example_text ''en'' =
     (\<lparr>score = 0.7, polarity = ''neutral'',
       intensity = \<lparr>positive = 0.6, negative = 0, neutral = 0.4\<rparr>,
       keywords_of = []\<rparr>, [SentimentError (Failure ''MissingCorpusError'')]) \<and>
   score (fst (analyze_sentiment missing_corpus_models example_text ''en'')) > 0.6 \<and>
   polarity (fst (analyze_sentiment missing_corpus_models example_text ''en'')) \<noteq> ''positive''"
  by (simp add: analyze_sentiment_def en_analysis_def float_add_def float_div_def
      exact_rounding.rep_eq missing_corpus_models_def example_models_def
      default_analysis_def texts_differ)

text \<open>
  Claim C2. A failure of a model call is caught and is not fatal, and the default dictionary
  is meant to be returned. The dictionary is updated in place before the last model call, so
  when that call raises, what is returned is not the default: in the run below the tagger
  raises and the result carries the blended score and the intensities.
\<close>

theorem fallback_profile_changed_after_failure:
  "blob_tags missing_corpus_models example_text = Inl (Failure ''MissingCorpusError'') \<and>
   fst (analyze_sentiment missing_corpus_models example_text ''en'') \<noteq> default_analysis \<and>
   score (fst (analyze_sentiment missing_corpus_models example_text ''en'')) = 0.7 \<and>
   intensity (fst (analyze_sentiment missing_corpus_models example_text ''en'')) =
     \<lparr>positive = 0.6, negative = 0, neutral = 0.4\<rparr>"
  by (simp add: analyze_sentiment_def en_analysis_def float_add_def float_div_def
      exact_rounding.rep_eq missing_corpus_models_def example_models_def
      default_analysis_def texts_differ)

text \<open>Rounding keeps the order and the bounds -2, -1, 1 and 2.\<close>

lemma float_add_range:
  assumes "- 2 \<le> x + y" and "x + y \<le> 2"
  shows "- 2 \<le> float_add M x y \<and> float_add M x y \<le> 2"
proof -
  have r: "mono (Rep_rounding (float_round M))"
    "Rep_rounding (float_round M) (- 2) = - 2" "Rep_rounding (float_round M) 2 = 2"
    using Rep_rounding [of "float_round M"] by simp_all
  have "Rep_rounding (float_round M) (- 2) \<le> Rep_rounding (float_round M) (x + y)"
    using r(1) assms(1) by (rule monoD)
  moreover have "Rep_rounding (float_round M) (x + y) \<le> Rep_rounding (float_round M) 2"
    using r(1) assms(2) by (rule monoD)
  ultimately show ?thesis using r(2,3) by (simp add: float_add_def)
qed

lemma float_div_range:
  assumes "- 1 \<le> x / y" and "x / y \<le> 1"
  shows "- 1 \<le> float_div M x y \<and> float_div M x y \<le> 1"
proof -
  have r: "mono (Rep_rounding (float_round M))"
    "Rep_rounding (float_round M) (- 1) = - 1" "Rep_rounding (float_round M) 1 = 1"
    using Rep_rounding [of "float_round M"] by simp_all
  have "Rep_rounding (float_round M) (- 1) \<le> Rep_rounding (float_round M) (x / y)"
    using r(1) assms(1) by (rule monoD)
  moreover have "Rep_rounding (float_round M) (x / y) \<le> Rep_rounding (float_round M) 1"
    using r(1) assms(2) by (rule monoD)
  ultimately show ?thesis using r(2,3) by (simp add: float_div_def)
qed

lemma blend_range:
  assumes "- 1 \<le> q" and "q \<le> 1" and "- 1 \<le> c" and "c \<le> 1"
  shows "- 1 \<le> float_div M (float_add M q c) 2 \<and> float_div M (float_add M q c) 2 \<le> 1"
proof -
  have "- 2 \<le> float_add M q c \<and> float_add M q c \<le> 2"
    using assms by (intro float_add_range) simp_all
  then show ?thesis by (intro float_div_range) simp_all
qed

text \<open>
  Claim C4. On the English path, once both scorers have returned, the score is the polarity
  plus the compound value, divided by two, computed as the source computes it, on floats:
  the sum is rounded to a double and halved. The intensities are the three proportions of
  the valence scorer. This holds whether or not the tagger raises afterwards. Where the sum
  and its half are doubles, the score is the mean of the two values as real numbers.
\<close>

theorem en_score_is_blend:
  assumes "lang \<noteq> ''zh''"
    and "vader_polarity_scores M t = Inr v"
    and "blob_polarity M t = Inr p"
  shows "score (fst (analyze_sentiment M t lang)) =
           float_div M (float_add M p (v_compound v)) 2 \<and>
         score (fst (analyze_sentiment M t lang)) =
           Rep_rounding (float_round M) (Rep_rounding (float_round M) (p + v_compound v) / 2) \<and>
         intensity (fst (analyze_sentiment M t lang)) =
           \<lparr>positive = v_pos v, negative = v_neg v, neutral = v_neu v\<rparr>"
proof -
  have s: "score (fst (analyze_sentiment M t lang)) =
             float_div M (float_add M p (v_compound v)) 2"
    using assms
    by (simp add: analyze_sentiment_def en_analysis_def Let_def set_polarity_def
        split: sum.splits)
  have i: "intensity (fst (analyze_sentiment M t lang)) =
             \<lparr>positive = v_pos v, negative = v_neg v, neutral = v_neu v\<rparr>"
    using assms
    by (simp add: analyze_sentiment_def en_analysis_def Let_def set_polarity_def
        split: sum.splits)
  show ?thesis using s i by (simp add: float_div_def float_add_def)
qed

theorem en_score_is_blend_witness:
  "''en'' \<noteq> ''zh'' \<and>
   vader_polarity_scores example_models example_text =
     Inr \<lparr>v_neg = 0, v_neu = 0.4, v_pos = 0.6, v_compound = 0.8\<rparr> \<and>
   blob_polarity example_models example_text = Inr 0.6 \<and>
   score (fst (analyze_sentiment example_models example_text ''en'')) = 0.7 \<and>
   intensity (fst (analyze_sentiment example_models example_text ''en'')) =
     \<lparr>positive = 0.6, negative = 0, neutral = 0.4\<rparr>"
proof -
  have l: "''en'' \<noteq> ''zh''" by simp
  have v: "vader_polarity_scores example_models example_text =
             Inr \<lparr>v_neg = 0, v_neu = 0.4, v_pos = 0.6, v_compound = 0.8\<rparr>"
    by (simp add: example_models_def texts_differ)
  have p: "blob_polarity example_models example_text = Inr 0.6"
    by (simp add: example_models_def texts_differ)
  show ?thesis using l v p en_score_is_blend [OF l v p]
    by (simp add: example_float_add example_float_div)
qed

text \<open>
  Exact real arithmetic is not what the source computes: a rounding that moves the sum moves
  the score, and with it the label. Where nothing is rounded the score is the real mean.
\<close>

lemma en_score_exact_mean:
  assumes "lang \<noteq> ''zh''"
    and "vader_polarity_scores M t = Inr v"
    and "blob_polarity M t = Inr p"
    and "Rep_rounding (float_round M) (p + v_compound v) = p + v_compound v"
    and "Rep_rounding (float_round M) ((p + v_compound v) / 2) = (p + v_compound v) / 2"
  shows "score (fst (analyze_sentiment M t lang)) = (p + v_compound v) / 2"
  using assms
  by (simp add: analyze_sentiment_def en_analysis_def Let_def set_polarity_def float_add_def
      float_div_def split: sum.splits)

text \<open>When the tagger returns as well, the label is read off the rounded score.\<close>

lemma en_label_from_rounded_score:
  assumes "lang \<noteq> ''zh''"
    and "vader_polarity_scores M t = Inr v"
    and "blob_polarity M t = Inr p"
    and "blob_tags M t = Inr tags"
    and "float_div M (float_add M p (v_compound v)) 2 = h"
  shows "score (fst (analyze_sentiment M t lang)) = h \<and>
         polarity (fst (analyze_sentiment M t lang)) =
           (if h > 0.6 then ''positive'' else if h < 0.4 then ''negative'' else ''neutral'')"
  using assms
  by (simp add: analyze_sentiment_def en_analysis_def Let_def set_polarity_def
      default_analysis_def)

section \<open>The analysis of a file: properties\<close>

lemma counter_add_keys:
  "map fst (counter_add x m) = (if x \<in> set (map fst m) then map fst m else map fst m @ [x])"
  by (induction m) (auto split: if_splits)

lemma counter_add_sum: "sum_list (map snd (counter_add x m)) = Suc (sum_list (map snd m))"
  by (induction m) auto

lemma counter_add_key_set: "set (map fst (counter_add x m)) = insert x (set (map fst m))"
  by (simp add: counter_add_keys insert_absorb)

lemma counter_add_distinct: "distinct (map fst m) \<Longrightarrow> distinct (map fst (counter_add x m))"
  by (simp add: counter_add_keys)

lemma counter_fold_keys:
  "set (map fst (foldl (\<lambda>m x. counter_add x m) m0 xs)) = set (map fst m0) \<union> set xs"
proof (induction xs arbitrary: m0)
  case Nil
  show ?case by simp
next
  case (Cons x xs)
  have "set (map fst (foldl (\<lambda>m x. counter_add x m) (counter_add x m0) xs)) =
          set (map fst (counter_add x m0)) \<union> set xs"
    by (rule Cons.IH)
  then show ?case by (simp only: foldl_Cons counter_add_key_set list.set) blast
qed

lemma counter_fold_distinct:
  "distinct (map fst m0) \<Longrightarrow> distinct (map fst (foldl (\<lambda>m x. counter_add x m) m0 xs))"
proof (induction xs arbitrary: m0)
  case Nil
  then show ?case by simp
next
  case (Cons x xs)
  from Cons.prems have "distinct (map fst (counter_add x m0))" by (rule counter_add_distinct)
  then have "distinct (map fst (foldl (\<lambda>m x. counter_add x m) (counter_add x m0) xs))"
    by (rule Cons.IH)
  then show ?case by (simp only: foldl_Cons)
qed

lemma counter_fold_sum:
  "sum_list (map snd (foldl (\<lambda>m x. counter_add x m) m0 xs)) = sum_list (map snd m0) + length xs"
proof (induction xs arbitrary: m0)
  case Nil
  show ?case by simp
next
  case (Cons x xs)
  have "sum_list (map snd (foldl (\<lambda>m x. counter_add x m) (counter_add x m0) xs)) =
          sum_list (map snd (counter_add x m0)) + length xs"
    by (rule Cons.IH)
  then show ?case by (simp only: foldl_Cons counter_add_sum) simp
qed

lemma Counter_keys: "set (map fst (Counter xs)) = set xs"
  using counter_fold_keys [of "[]" xs] by (simp add: Counter_def)

lemma Counter_distinct: "distinct (map fst (Counter xs))"
  using counter_fold_distinct [of "[]" xs] by (simp add: Counter_def)

lemma Counter_sum: "sum_list (map snd (Counter xs)) = length xs"
  using counter_fold_sum [of "[]" xs] by (simp add: Counter_def)

text \<open>The shape of every returned record, and when one is returned.\<close>

lemma analyze_file_SomeD:
  assumes "analyze_file M U p w = (Some r, w')"
  shows "\<exists>content sz ws.
           fs_read w p = Inr content \<and> fs_getsize w p = Inr sz \<and>
           tokenize_text M U content (detect_language content) = Inr ws \<and>
           r = \<lparr>file_name = os_basename w p, file_size = sz, char_count = length content,
                line_count = length (splitlines content),
                language = detect_language content, words = ws,
                sentiment = fst (analyze_sentiment M content (detect_language content)),
                word_count = length ws, word_freq = Counter ws\<rparr> \<and>
           w' = print (snd (analyze_sentiment M content (detect_language content))) w"
  using assms
  by (auto simp: analyze_file_def Let_def split: sum.splits prod.splits)

lemma analyze_file_SomeI:
  assumes "fs_read w p = Inr content" and "fs_getsize w p = Inr sz"
    and "tokenize_text M U content (detect_language content) = Inr ws"
  shows "analyze_file M U p w =
           (Some \<lparr>file_name = os_basename w p, file_size = sz, char_count = length content,
                line_count = length (splitlines content),
                language = detect_language content, words = ws,
                sentiment = fst (analyze_sentiment M content (detect_language content)),
                word_count = length ws, word_freq = Counter ws\<rparr>,
            print (snd (analyze_sentiment M content (detect_language content))) w)"
  using assms
  by (auto simp: analyze_file_def Let_def split: sum.splits prod.splits)

text \<open>A failure inside the sentiment analysis does not stop the analysis of the file.\<close>

lemma sentiment_failure_not_fatal:
  assumes "fs_read w p = Inr content" and "fs_getsize w p = Inr sz"
    and "tokenize_text M U content (detect_language content) = Inr ws"
  shows "fst (analyze_file M U p w) \<noteq> None"
  using analyze_file_SomeI [OF assms] by simp

lemma analyze_file_keeps_files:
  "fs_read (snd (analyze_file M U p w)) = fs_read w \<and>
   fs_getsize (snd (analyze_file M U p w)) = fs_getsize w \<and>
   os_basename (snd (analyze_file M U p w)) = os_basename w"
  by (simp add: analyze_file_def print_def Let_def split: sum.splits prod.splits)

lemma analyze_file_same_file:
  assumes "fs_read w2 p = fs_read w1 p" and "fs_getsize w2 p = fs_getsize w1 p"
    and "os_basename w2 p = os_basename w1 p"
  shows "fst (analyze_file M U p w2) = fst (analyze_file M U p w1)"
  using assms by (simp add: analyze_file_def Let_def split: sum.splits prod.splits)

text \<open>
  Claim C3, as amended. In every returned record the score lies between 0 and 1 on the
  Chinese path, where it is the classifier's value, and between -1 and 1 on the English
  path, where it is the mean of two values of that range, rounded; the ranges of the models'
  values are hypotheses. Before any model value is stored the score is the default 0.5.
\<close>

theorem score_range_by_language:
  assumes "\<forall>t s. snow_sentiments M t = Inr s \<longrightarrow> 0 \<le> s \<and> s \<le> 1"
    and "\<forall>t q. blob_polarity M t = Inr q \<longrightarrow> - 1 \<le> q \<and> q \<le> 1"
    and "\<forall>t v. vader_polarity_scores M t = Inr v \<longrightarrow> - 1 \<le> v_compound v \<and> v_compound v \<le> 1"
    and "analyze_file M U p w = (Some r, w')"
  shows "(language r = ''zh'' \<longrightarrow> 0 \<le> score (sentiment r) \<and> score (sentiment r) \<le> 1) \<and>
         (language r \<noteq> ''zh'' \<longrightarrow> - 1 \<le> score (sentiment r) \<and> score (sentiment r) \<le> 1)"
proof -
  from analyze_file_SomeD [OF assms(4)] obtain content where
    l: "language r = detect_language content" and
    s: "sentiment r = fst (analyze_sentiment M content (detect_language content))"
    by auto
  have zh: "0 \<le> score (fst (analyze_sentiment M content ''zh'')) \<and>
            score (fst (analyze_sentiment M content ''zh'')) \<le> 1"
    using assms(1)
    by (auto simp: analyze_sentiment_def zh_analysis_def default_analysis_def Let_def
        set_polarity_score split: sum.splits)
  have en: "lang \<noteq> ''zh'' \<Longrightarrow> - 1 \<le> score (fst (analyze_sentiment M content lang)) \<and>
            score (fst (analyze_sentiment M content lang)) \<le> 1" for lang
  proof -
    assume n: "lang \<noteq> ''zh''"
    have b: "- 1 \<le> float_div M (float_add M q (v_compound v)) 2 \<and>
             float_div M (float_add M q (v_compound v)) 2 \<le> 1"
      if "blob_polarity M content = Inr q" "vader_polarity_scores M content = Inr v" for q v
    proof -
      from assms(2) that(1) have "- 1 \<le> q \<and> q \<le> 1" by blast
      moreover from assms(3) that(2) have "- 1 \<le> v_compound v \<and> v_compound v \<le> 1" by blast
      ultimately show ?thesis by (intro blend_range) simp_all
    qed
    show ?thesis using n b
      by (auto simp: analyze_sentiment_def en_analysis_def default_analysis_def Let_def
          set_polarity_score split: sum.splits)
  qed
  show ?thesis using l s zh en [of "detect_language content"] by auto
qed

theorem score_range_by_language_witness:
  "analyze_file example_models example_unicode complaint_path example_world =
     (Some complaint_result, example_world) \<and>
   language complaint_result \<noteq> ''zh'' \<and>
   - 1 \<le> score (sentiment complaint_result) \<and> score (sentiment complaint_result) \<le> 1"
proof -
  have a: "\<forall>t s. snow_sentiments example_models t = Inr s \<longrightarrow> 0 \<le> s \<and> s \<le> 1"
    by (simp add: example_models_def)
  have b: "\<forall>t q. blob_polarity example_models t = Inr q \<longrightarrow> - 1 \<le> q \<and> q \<le> 1"
    by (auto simp: example_models_def split: if_splits)
  have c: "\<forall>t v. vader_polarity_scores example_models t = Inr v \<longrightarrow>
             - 1 \<le> v_compound v \<and> v_compound v \<le> 1"
    by (auto simp: example_models_def split: if_splits)
  have l: "language complaint_result \<noteq> ''zh''"
    by (simp add: complaint_result_def)
  show ?thesis
    using l complaint_run score_range_by_language [OF a b c complaint_run] by simp
qed

text \<open>
  Claim C3 as stated fails on the English path: for the complaint the two scorers return
  -0.9 and -0.8, and the record that is returned has the score -0.85.
\<close>

theorem score_below_zero_counterexample:
  "analyze_file example_models example_unicode complaint_path example_world =
     (Some complaint_result, example_world) \<and>
   language complaint_result = ''en'' \<and>
   score (sentiment complaint_result) = - 0.85 \<and>
   \<not> (0 \<le> score (sentiment complaint_result) \<and> score (sentiment complaint_result) \<le> 1)"
  using complaint_run by (simp add: complaint_result_def)

text \<open>
  Claim C7. In every returned record the word count is the number of tokens, the counts of
  the frequency table add up to it, and the keys of the table, each present once, are the
  distinct tokens.
\<close>

theorem result_counts_consistent:
  assumes "analyze_file M U p w = (Some r, w')"
  shows "word_count r = length (words r) \<and>
         sum_list (map snd (word_freq r)) = word_count r \<and>
         set (map fst (word_freq r)) = set (words r) \<and>
         distinct (map fst (word_freq r))"
proof -
  from analyze_file_SomeD [OF assms] obtain ws where
    "words r = ws" "word_count r = length ws" "word_freq r = Counter ws"
    by auto
  then show ?thesis
    using Counter_keys [of ws] Counter_distinct [of ws] Counter_sum [of ws] by simp
qed

theorem result_counts_consistent_witness:
  "analyze_file example_models example_unicode example_path example_world =
     (Some example_result, example_world) \<and>
   (word_count example_result = length (words example_result) \<and>
    sum_list (map snd (word_freq example_result)) = word_count example_result \<and>
    set (map fst (word_freq example_result)) = set (words example_result) \<and>
    distinct (map fst (word_freq example_result)))"
  using example_run result_counts_consistent [OF example_run] by (rule conjI)

text \<open>
  Claim C8. When the file cannot be opened or decoded, \<open>analyze_file\<close> prints the failure
  and returns \<open>None\<close>: no record, complete or partial, reaches the caller, and the main
  program invokes neither the chart stage nor the report stage.
\<close>

theorem read_failure_aborts:
  assumes "fs_read w p = Inl e"
  shows "analyze_file M U p w = (None, print [AnalysisFailed e] w) \<and>
         main_stages M U p choice w = []"
  using assms by (simp add: analyze_file_def main_stages_def)

theorem read_failure_aborts_witness:
  "fs_read example_world (of_ascii ''missing.txt'') = Inl (Failure ''FileNotFoundError'') \<and>
   analyze_file example_models example_unicode (of_ascii ''missing.txt'') example_world =
     (None, print [AnalysisFailed (Failure ''FileNotFoundError'')] example_world) \<and>
   main_stages example_models example_unicode (of_ascii ''missing.txt'') ''pdf'' example_world = []"
proof -
  have r: "fs_read example_world (of_ascii ''missing.txt'') = Inl (Failure ''FileNotFoundError'')"
    by (simp add: example_world_def example_path_def complaint_path_def of_ascii_def)
  show ?thesis
    using r read_failure_aborts [OF r, of example_models example_unicode "''pdf''"] by simp
qed

text \<open>
  Claim C9. The record returned by \<open>analyze_file\<close> depends on the world only through the
  content, the size and the base name of the file: two runs in worlds that agree on them
  return the same record, the models being functions of the text. In particular a second
  run, in the world the first run leaves behind, returns what the first returned.
\<close>

theorem analyze_file_repeatable:
  assumes "fs_read w2 p = fs_read w1 p" and "fs_getsize w2 p = fs_getsize w1 p"
    and "os_basename w2 p = os_basename w1 p"
  shows "fst (analyze_file M U p w2) = fst (analyze_file M U p w1) \<and>
         fst (analyze_file M U p (snd (analyze_file M U p w1))) = fst (analyze_file M U p w1)"
  using analyze_file_same_file [OF assms]
    analyze_file_same_file [of "snd (analyze_file M U p w1)" p w1]
    analyze_file_keeps_files [of M U p w1]
  by simp

theorem analyze_file_repeatable_witness:
  "fs_read (example_world\<lparr>console := [AnalysisFailed (Failure ''earlier'')]\<rparr>) example_path =
     fs_read example_world example_path \<and>
   fs_getsize (example_world\<lparr>console := [AnalysisFailed (Failure ''earlier'')]\<rparr>) example_path =
     fs_getsize example_world example_path \<and>
   os_basename (example_world\<lparr>console := [AnalysisFailed (Failure ''earlier'')]\<rparr>) example_path =
     os_basename example_world example_path \<and>
   fst (analyze_file example_models example_unicode example_path
          (example_world\<lparr>console := [AnalysisFailed (Failure ''earlier'')]\<rparr>)) =
     Some example_result \<and>
   fst (analyze_file example_models example_unicode example_path
          (snd (analyze_file example_models example_unicode example_path example_world))) =
     Some example_result"
proof -
  let ?w2 = "example_world\<lparr>console := [AnalysisFailed (Failure ''earlier'')]\<rparr>"
  have a: "fs_read ?w2 example_path = fs_read example_world example_path" by simp
  have b: "fs_getsize ?w2 example_path = fs_getsize example_world example_path" by simp
  have c: "os_basename ?w2 example_path = os_basename example_world example_path" by simp
  show ?thesis
    using a b c example_run
      analyze_file_repeatable [OF a b c, of example_models example_unicode]
    by simp
qed

end
